theory Spec2Isabelle
  imports Main "HOL-Library.Word"
begin

section \<open>chrlogin: a setuid-root login shim that enters a chroot jail\<close>

text \<open>
  The program is one C function, \<^verbatim>\<open>main\<close> of \<^verbatim>\<open>chrlogin.c\<close>. It is embedded as a
  function from a \<^emph>\<open>world\<close> (the answers the operating system and the C library give
  to the calls the program makes) to the list of calls made, in order, and the way
  the process ends.

  A C string is the list of its characters before the terminating NUL.
\<close>

subsection \<open>Configuration parameters and constants\<close>

definition SHELL :: string where
  "SHELL = ''/bin/bash''"

definition CHROOT_LEVEL :: int where
  "CHROOT_LEVEL = 2"

definition MAX_STRING :: nat where
  "MAX_STRING = 1024"

definition NUL :: char where
  "NUL = CHR 0x00"

subsection \<open>Data\<close>

type_synonym uid_t = "32 word"

text \<open>The two fields of \<^verbatim>\<open>struct passwd\<close> that the program reads.\<close>

record passwd =
  pw_dir :: string
  pw_shell :: string

text \<open>
  The diagnostics, one constructor for each \<^verbatim>\<open>fprintf(stderr, ...)\<close> of the source,
  with the values printed by its \<^verbatim>\<open>%s\<close> and \<^verbatim>\<open>%d\<close> conversions (the leading
  \<^verbatim>\<open>argv[0]\<close> is carried by the call itself).
\<close>

datatype message =
    Needs_setuid_root
  | Target_must_not_be_root
  | Not_in_passwd int
  | Home_no_slash string
  | Home_not_exist string
  | Home_too_short string int
  | Shell_no_access string
  | Shell_not_regular string
  | Chdir_root_failed string
  | Chroot_failed string
  | Not_in_chroot_passwd int
  | Chdir_home_failed string int

text \<open>The calls the program makes to the system and the C library.\<close>

datatype call =
    Getuid
  | Geteuid
  | Getpwuid uid_t
  | Stat string
  | Chdir string
  | Chroot string
  | Setuid uid_t
  | Putenv string
  | Execve string "string list" "string list"
  | Fprintf string message

text \<open>
  The process ends by \<^verbatim>\<open>exit(n)\<close> or by returning \<^verbatim>\<open>n\<close> from \<^verbatim>\<open>main\<close>
  (\<open>Exited n\<close>), or its image is replaced by a successful \<^verbatim>\<open>execve\<close>.
\<close>

datatype outcome =
    Exited int
  | Replaced string "string list" "string list"

text \<open>
  The world. \<open>getpwuid\<close>, \<open>stat\<close>, \<open>chdir\<close> and \<open>chroot\<close> answer for the host
  file system, before the root is changed; \<open>jail_getpwuid\<close> and \<open>jail_chdir\<close> answer
  for the calls made after it. \<open>stat\<close> is \<open>None\<close> when the call fails and otherwise
  tells whether \<^verbatim>\<open>S_ISREG\<close> holds; the other calls answer whether they succeed.
  The argument vector has at least one entry: \<open>argv_0\<close>, followed by \<open>argv_rest\<close>.
  \<open>chroot_dir_1023\<close> is the byte that the cell \<^verbatim>\<open>chroot_dir[1023]\<close>, which the program
  never writes, happens to hold.
\<close>

record world =
  getuid :: uid_t
  geteuid :: uid_t
  argv_0 :: string
  argv_rest :: "string list"
  envp :: "string list"
  getpwuid :: "uid_t \<Rightarrow> passwd option"
  stat :: "string \<Rightarrow> bool option"
  chdir :: "string \<Rightarrow> bool"
  chroot :: "string \<Rightarrow> bool"
  setuid :: "uid_t \<Rightarrow> bool"
  jail_getpwuid :: "uid_t \<Rightarrow> passwd option"
  jail_chdir :: "string \<Rightarrow> bool"
  execve :: "string \<Rightarrow> string list \<Rightarrow> string list \<Rightarrow> bool"
  chroot_dir_1023 :: char

subsection \<open>The string functions of the C library\<close>

text \<open>
  \<^verbatim>\<open>strncpy(dest, src, n)\<close> writes exactly \<open>n\<close> bytes: the string and NUL padding when
  \<open>src\<close> is shorter than \<open>n\<close>, and otherwise its first \<open>n\<close> characters with no
  terminator, so that the string then read from \<open>dest\<close> runs on into \<open>beyond\<close>, the
  characters that the memory after the \<open>n\<close> bytes holds up to its first NUL.
\<close>

definition strncpy :: "string \<Rightarrow> nat \<Rightarrow> string \<Rightarrow> string" where
  "strncpy src n beyond = (if length src < n then src else take n src @ beyond)"

text \<open>
  \<^verbatim>\<open>strncat(dest, src, n)\<close> appends at most \<open>n\<close> characters of \<open>src\<close>, and then a
  terminator.
\<close>

definition strncat :: "string \<Rightarrow> string \<Rightarrow> nat \<Rightarrow> string" where
  "strncat dest src n = dest @ take n src"

text \<open>
  \<^verbatim>\<open>putenv(string)\<close>, as it acts on the array that \<^verbatim>\<open>envp\<close> points to. At the start
  of the program \<^verbatim>\<open>environ\<close> and \<^verbatim>\<open>envp\<close> are the same array. When an entry of
  the same name exists, the first such entry is overwritten in place, which is seen
  through \<^verbatim>\<open>envp\<close>. When none exists the array has no free cell: the library
  allocates a new array and redirects \<^verbatim>\<open>environ\<close>, and the array behind \<^verbatim>\<open>envp\<close>
  stays as it was.
\<close>

definition same_name :: "string \<Rightarrow> string \<Rightarrow> bool" where
  "same_name s e =
     (let name = takeWhile (\<lambda>c. c \<noteq> CHR ''='') s
      in take (Suc (length name)) e = name @ ''='')"

fun putenv :: "string \<Rightarrow> string list \<Rightarrow> string list" where
  "putenv s [] = []"
| "putenv s (e # es) = (if same_name s e then s # es else e # putenv s es)"

subsection \<open>The program\<close>

definition emit :: "call list \<Rightarrow> call list \<times> outcome \<Rightarrow> call list \<times> outcome" where
  "emit cs r = (cs @ fst r, snd r)"

text \<open>A diagnostic followed by \<^verbatim>\<open>exit(-1)\<close>.\<close>

definition fatal :: "world \<Rightarrow> message \<Rightarrow> call list \<times> outcome" where
  "fatal w m = ([Fprintf (argv_0 w) m], Exited (- 1))"

text \<open>
  Lines 186 to 198: \<^verbatim>\<open>argv[0]\<close> is overwritten, \<^verbatim>\<open>home_dir\<close> is built by
  \<^verbatim>\<open>strcpy\<close> and a bounded \<^verbatim>\<open>strncat\<close>, and \<^verbatim>\<open>execve\<close> is given \<^verbatim>\<open>envp\<close>. The
  results of \<^verbatim>\<open>putenv\<close> and \<^verbatim>\<open>execve\<close> are not looked at: when \<^verbatim>\<open>execve\<close> returns,
  \<^verbatim>\<open>main\<close> returns 0.
\<close>

definition exec_shell :: "world \<Rightarrow> passwd \<Rightarrow> call list \<times> outcome" where
  "exec_shell w pw_ent =
     (let argv' = pw_shell pw_ent # argv_rest w;
          home_dir = ''HOME='';
          home_dir = strncat home_dir (pw_dir pw_ent) (MAX_STRING - length home_dir);
          envp' = putenv home_dir (envp w)
      in ([Putenv home_dir, Execve SHELL argv' envp'],
          if execve w SHELL argv' envp' then Replaced SHELL argv' envp' else Exited 0))"

text \<open>
  Lines 150 to 183: \<^verbatim>\<open>chdir\<close>, \<^verbatim>\<open>chroot\<close>, \<^verbatim>\<open>setuid\<close> (its result is not looked
  at), the second \<^verbatim>\<open>getpwuid\<close> and the \<^verbatim>\<open>chdir\<close> to the home directory. The variable
  \<^verbatim>\<open>real_user\<close> is an \<^verbatim>\<open>int\<close>, converted back to \<^verbatim>\<open>uid_t\<close> at each call.
\<close>

definition enter_chroot :: "world \<Rightarrow> int \<Rightarrow> string \<Rightarrow> call list \<times> outcome" where
  "enter_chroot w real_user chroot_dir =
     emit [Chdir chroot_dir]
      (if \<not> chdir w chroot_dir then fatal w (Chdir_root_failed chroot_dir)
       else emit [Chroot chroot_dir]
        (if \<not> chroot w chroot_dir then fatal w (Chroot_failed chroot_dir)
         else emit [Setuid (of_int real_user), Getpwuid (of_int real_user)]
          (case jail_getpwuid w (of_int real_user) of
             None \<Rightarrow> fatal w (Not_in_chroot_passwd real_user)
           | Some pw_ent \<Rightarrow>
               emit [Chdir (pw_dir pw_ent)]
                (if \<not> jail_chdir w (pw_dir pw_ent)
                 then fatal w (Chdir_home_failed (pw_dir pw_ent) real_user)
                 else exec_shell w pw_ent))))"

text \<open>
  Lines 133 to 147: the path of the shell below the chroot directory, by a
  \<^verbatim>\<open>strncpy\<close> of the whole buffer and a bounded \<^verbatim>\<open>strncat\<close>, and its check.
\<close>

definition shell_path :: "string \<Rightarrow> string" where
  "shell_path chroot_dir =
     (let shell = strncpy chroot_dir MAX_STRING []
      in strncat shell SHELL (MAX_STRING - length shell))"

definition check_shell :: "world \<Rightarrow> int \<Rightarrow> string \<Rightarrow> call list \<times> outcome" where
  "check_shell w real_user chroot_dir =
     (let shell = shell_path chroot_dir
      in emit [Stat shell]
          (case stat w shell of
             None \<Rightarrow> fatal w (Shell_no_access shell)
           | Some is_reg \<Rightarrow>
               if \<not> is_reg then fatal w (Shell_not_regular shell)
               else enter_chroot w real_user chroot_dir))"

text \<open>
  Lines 116 to 123, the loop that cuts \<^verbatim>\<open>chroot_dir\<close>: \<open>extract_dir lvl cnt p\<close> walks
  the characters from \<^verbatim>\<open>p\<close> on and returns what the buffer holds from \<^verbatim>\<open>p\<close> on when
  the loop is left, with the last value of \<^verbatim>\<open>cnt\<close>.
\<close>

fun extract_dir :: "int \<Rightarrow> int \<Rightarrow> string \<Rightarrow> string \<times> int" where
  "extract_dir lvl cnt [] = ([], cnt)"
| "extract_dir lvl cnt (c # p) =
     (let cnt' = (if c = CHR ''/'' then cnt + 1 else cnt)
      in if cnt' = lvl then ([], cnt')
         else (case extract_dir lvl cnt' p of (d, k) \<Rightarrow> (c # d, k)))"

text \<open>
  Lines 100 and 101: a \<^verbatim>\<open>strncpy\<close> of \<^verbatim>\<open>MAX_STRING - 1\<close> bytes into \<^verbatim>\<open>chroot_dir\<close>,
  then a zero written to \<^verbatim>\<open>chroot_dir[MAX_STRING]\<close>, one cell past the end of the
  buffer. When the home directory has \<^verbatim>\<open>MAX_STRING - 1\<close> characters or more, the string
  in the buffer is not terminated by the copy: it runs through the cell
  \<^verbatim>\<open>chroot_dir[MAX_STRING - 1]\<close>, which was never written, and ends at the zero behind
  it. The cell one past the end of each of the three buffers is taken to belong to
  no other object that is in use.
\<close>

definition copy_home :: "char \<Rightarrow> string \<Rightarrow> string" where
  "copy_home last_cell dir =
     strncpy dir (MAX_STRING - 1) (if last_cell = NUL then [] else [last_cell])"

text \<open>Lines 98 to 130, for a chroot directory level \<open>lvl\<close>.\<close>

definition check_home :: "int \<Rightarrow> world \<Rightarrow> int \<Rightarrow> passwd \<Rightarrow> call list \<times> outcome" where
  "check_home lvl w real_user pw_ent =
     (let chroot_dir = copy_home (chroot_dir_1023 w) (pw_dir pw_ent)
      in emit (if take 1 chroot_dir \<noteq> ''/''
               then [Fprintf (argv_0 w) (Home_no_slash chroot_dir)] else [])
         (emit [Stat chroot_dir]
          (emit (if stat w chroot_dir = None
                 then [Fprintf (argv_0 w) (Home_not_exist chroot_dir)] else [])
           (case extract_dir lvl (- 1) chroot_dir of
              (chroot_dir, cnt) \<Rightarrow>
                if cnt < lvl then fatal w (Home_too_short chroot_dir lvl)
                else check_shell w real_user chroot_dir))))"

text \<open>Lines 64 to 95, and the whole program for a chroot directory level \<open>lvl\<close>.\<close>

definition main_level :: "int \<Rightarrow> world \<Rightarrow> call list \<times> outcome" where
  "main_level lvl w =
     (let real_user = sint (getuid w)
      in emit [Getuid, Geteuid]
          (if geteuid w \<noteq> 0 then fatal w Needs_setuid_root
           else if real_user = 0 then fatal w Target_must_not_be_root
           else emit [Getpwuid (of_int real_user)]
            (case getpwuid w (of_int real_user) of
               None \<Rightarrow> fatal w (Not_in_passwd real_user)
             | Some pw_ent \<Rightarrow> check_home lvl w real_user pw_ent)))"

definition main :: "world \<Rightarrow> call list \<times> outcome" where
  "main w = main_level CHROOT_LEVEL w"

definition calls :: "world \<Rightarrow> call list" where
  "calls w = fst (main w)"

definition ending :: "world \<Rightarrow> outcome" where
  "ending w = snd (main w)"

subsection \<open>Notions used to state the properties\<close>

text \<open>
  The calls that the program makes while it still works on the host file system:
  identity and password lookups, \<^verbatim>\<open>stat\<close> and diagnostics.
\<close>

fun host_call :: "call \<Rightarrow> bool" where
  "host_call Getuid = True"
| "host_call Geteuid = True"
| "host_call (Getpwuid u) = True"
| "host_call (Stat p) = True"
| "host_call (Fprintf a m) = True"
| "host_call c = False"


text \<open>
  The jail root of a world: what \<^verbatim>\<open>chroot_dir\<close> holds after the loop, for the home
  directory of the record that the first lookup returns.
\<close>

definition jail_root :: "world \<Rightarrow> string" where
  "jail_root w =
     (case getpwuid w (getuid w) of
        None \<Rightarrow> []
      | Some pw_ent \<Rightarrow>
          fst (extract_dir CHROOT_LEVEL (- 1)
                 (copy_home (chroot_dir_1023 w) (pw_dir pw_ent))))"

text \<open>
  The calls made up to the end of the check of the home directory, when the
  pre-flight checks and the first lookup succeed and \<^verbatim>\<open>chroot_dir\<close> holds \<open>c\<close>.
\<close>

definition home_calls :: "world \<Rightarrow> string \<Rightarrow> call list" where
  "home_calls w c =
     [Getuid, Geteuid, Getpwuid (getuid w)] @
     (if take 1 c \<noteq> ''/'' then [Fprintf (argv_0 w) (Home_no_slash c)] else []) @
     [Stat c] @
     (if stat w c = None then [Fprintf (argv_0 w) (Home_not_exist c)] else [])"

text \<open>An entry of the environment that defines \<^verbatim>\<open>HOME\<close>.\<close>

definition defines_HOME :: "string \<Rightarrow> bool" where
  "defines_HOME e = (take 5 e = ''HOME='')"

subsection \<open>Example worlds\<close>

text \<open>
  The user joe, uid 1000, whose host record has the home directory
  \<^verbatim>\<open>/home/chroot/home/joe\<close> and whose record in the jail has the home directory
  \<^verbatim>\<open>/home/joe\<close> and the shell \<^verbatim>\<open>/bin/sh\<close>. Every call succeeds.
\<close>

definition joe :: world where
  "joe = \<lparr>getuid = 1000, geteuid = 0, argv_0 = ''-chrlogin'', argv_rest = [''-l''],
     envp = [''PATH=/bin:/usr/bin'', ''HOME=/home/chroot/home/joe'', ''TERM=vt100''],
     getpwuid = (\<lambda>u. if u = 1000
        then Some \<lparr>pw_dir = ''/home/chroot/home/joe'', pw_shell = ''/usr/local/sbin/chrlogin''\<rparr>
        else None),
     stat = (\<lambda>p. if p = ''/home/chroot/bin/bash'' then Some True
                 else if p = ''/home/chroot/home/joe'' then Some False else None),
     chdir = (\<lambda>p. p = ''/home/chroot''),
     chroot = (\<lambda>p. p = ''/home/chroot''),
     setuid = (\<lambda>u. True),
     jail_getpwuid = (\<lambda>u. if u = 1000
        then Some \<lparr>pw_dir = ''/home/joe'', pw_shell = ''/bin/sh''\<rparr> else None),
     jail_chdir = (\<lambda>p. p = ''/home/joe''),
     execve = (\<lambda>p a e. True),
     chroot_dir_1023 = CHR ''x''\<rparr>"

text \<open>The calls of joe's run before the jail is entered.\<close>

definition joe_host_calls :: "call list" where
  "joe_host_calls =
     [Getuid, Geteuid, Getpwuid 1000, Stat ''/home/chroot/home/joe'',
      Stat ''/home/chroot/bin/bash'']"

definition joe_jail_calls :: "call list" where
  "joe_jail_calls =
     [Chdir ''/home/chroot'', Chroot ''/home/chroot'', Setuid 1000, Getpwuid 1000,
      Chdir ''/home/joe'', Putenv ''HOME=/home/joe'',
      Execve ''/bin/bash'' [''/bin/sh'', ''-l'']
        [''PATH=/bin:/usr/bin'', ''HOME=/home/joe'', ''TERM=vt100'']]"

text \<open>joe when the binary is not setuid root, and root calling the program.\<close>

definition not_setuid :: world where
  "not_setuid = joe\<lparr>geteuid := 1000\<rparr>"

definition root_caller :: world where
  "root_caller = joe\<lparr>getuid := 0\<rparr>"

text \<open>joe's world with a setuid that fails, and with an execve that fails.\<close>

definition setuid_fails :: world where
  "setuid_fails = joe\<lparr>setuid := \<lambda>u. False\<rparr>"

definition exec_fails :: world where
  "exec_fails = joe\<lparr>execve := \<lambda>p a e. False\<rparr>"

text \<open>
  A home directory of 1035 characters with two separators after the leading one, the
  second of them behind the 1023rd character, in a world where the cell
  \<^verbatim>\<open>chroot_dir[1023]\<close> holds a zero.
\<close>

definition long_home :: string where
  "long_home = ''/a/'' @ replicate 1030 (CHR ''b'') @ ''/c''"

definition long_home_world :: world where
  "long_home_world =
     joe\<lparr>getpwuid := \<lambda>u. Some \<lparr>pw_dir = long_home, pw_shell = ''/usr/local/sbin/chrlogin''\<rparr>,
         chroot_dir_1023 := NUL\<rparr>"

text \<open>A user whose home directory is \<^verbatim>\<open>/a\<close>.\<close>

definition short_home_world :: world where
  "short_home_world =
     joe\<lparr>getpwuid := \<lambda>u. Some \<lparr>pw_dir = ''/a'', pw_shell = ''/usr/local/sbin/chrlogin''\<rparr>\<rparr>"




text \<open>
  joe's world with a home directory of 1031 characters in the jail, and joe's world
  with an environment that does not define \<^verbatim>\<open>HOME\<close>.
\<close>

definition long_inner_home :: string where
  "long_inner_home = CHR ''/'' # replicate 1030 (CHR ''h'')"

definition long_inner_world :: world where
  "long_inner_world =
     joe\<lparr>jail_getpwuid := \<lambda>u. Some \<lparr>pw_dir = long_inner_home, pw_shell = ''/bin/sh''\<rparr>,
         jail_chdir := \<lambda>p. p = long_inner_home\<rparr>"

definition no_HOME_world :: world where
  "no_HOME_world = joe\<lparr>envp := [''PATH=/bin:/usr/bin'', ''TERM=vt100'']\<rparr>"

text \<open>
  A user whose home directory in the host record is relative, with a jail below the
  working directory; and a user whose home directory is relative and has 1030
  characters, in a world where the cell \<^verbatim>\<open>chroot_dir[1023]\<close> holds a zero.
\<close>

definition relative_joe :: world where
  "relative_joe =
     joe\<lparr>getpwuid :=
           \<lambda>u. Some \<lparr>pw_dir = ''jails/joe/root/home'', pw_shell = ''/usr/local/sbin/chrlogin''\<rparr>,
         stat := \<lambda>p. if p = ''jails/joe/root/bin/bash'' then Some True else None,
         chdir := \<lambda>p. p = ''jails/joe/root'',
         chroot := \<lambda>p. p = ''jails/joe/root''\<rparr>"

definition long_relative :: string where
  "long_relative = replicate 1030 (CHR ''r'')"

definition long_relative_world :: world where
  "long_relative_world =
     joe\<lparr>getpwuid :=
           \<lambda>u. Some \<lparr>pw_dir = long_relative, pw_shell = ''/usr/local/sbin/chrlogin''\<rparr>,
         stat := \<lambda>p. None,
         chroot_dir_1023 := NUL\<rparr>"

section \<open>Auxiliary facts\<close>

lemmas program_defs =
  main_def main_level_def emit_def fatal_def check_home_def copy_home_def strncpy_def
  strncat_def MAX_STRING_def CHROOT_LEVEL_def check_shell_def shell_path_def
  enter_chroot_def exec_shell_def SHELL_def same_name_def Let_def

subsection \<open>The copies of strings\<close>

lemma sint_uid_0: "sint (u :: uid_t) = 0 \<longleftrightarrow> u = 0"
  by (simp add: signed_eq_0_iff)

lemma copy_home_short: "length dir < MAX_STRING - 1 \<Longrightarrow> copy_home g dir = dir"
  by (simp add: copy_home_def strncpy_def)

lemma copy_home_length: "length (copy_home g dir) \<le> MAX_STRING"
  by (simp add: copy_home_def strncpy_def MAX_STRING_def)

lemma copy_home_take: "copy_home g (take (MAX_STRING - 1) dir) = copy_home g dir"
  by (simp add: copy_home_def strncpy_def MAX_STRING_def)

lemma take_copy_home:
  "take (MAX_STRING - 1) (copy_home g dir) = take (MAX_STRING - 1) dir"
  by (simp add: copy_home_def strncpy_def MAX_STRING_def)

lemma take_1_copy_home: "take 1 (copy_home g dir) = take 1 dir"
  by (simp add: copy_home_def strncpy_def MAX_STRING_def take_Suc min_def split: list.splits)


lemma same_name_HOME: "same_name (''HOME='' @ v) e = defines_HOME e"
  by (simp add: same_name_def defines_HOME_def eval_nat_numeral)

lemma putenv_HOME:
  assumes "defines_HOME old" and "\<forall>e\<in>set pre. \<not> defines_HOME e"
  shows "putenv (''HOME='' @ v) (pre @ old # post) = pre @ (''HOME='' @ v) # post"
  using assms by (induction pre) (simp_all add: same_name_HOME [simplified])

lemma count_list_replicate:
  "count_list (replicate n x) y = (if x = y then n else 0)"
  by (induction n) auto

subsection \<open>The walk over the separators\<close>

lemma extract_dir_short:
  "cnt + int (count_list s (CHR ''/'')) < lvl \<Longrightarrow>
   extract_dir lvl cnt s = (s, cnt + int (count_list s (CHR ''/'')))"
  by (induction s arbitrary: cnt) (auto simp: Let_def)

lemma extract_dir_at:
  "cnt + int (count_list J (CHR ''/'')) + 1 = lvl \<Longrightarrow>
   extract_dir lvl cnt (J @ CHR ''/'' # rest) = (J, lvl)"
proof (induction J arbitrary: cnt)
  case Nil
  then show ?case by (simp add: Let_def)
next
  case (Cons c J)
  show ?case
  proof (cases "c = CHR ''/''")
    case True
    with Cons.prems have "cnt + 1 + int (count_list J (CHR ''/'')) + 1 = lvl"
      by simp
    from Cons.IH [OF this] True Cons.prems show ?thesis
      by (simp add: Let_def)
  next
    case False
    with Cons.prems have "cnt + int (count_list J (CHR ''/'')) + 1 = lvl"
      by simp
    from Cons.IH [OF this] False Cons.prems show ?thesis
      by (auto simp: Let_def)
  qed
qed

lemma extract_dir_cut:
  "cnt < lvl \<Longrightarrow> lvl \<le> cnt + int (count_list s (CHR ''/'')) \<Longrightarrow>
   \<exists>J rest. s = J @ CHR ''/'' # rest \<and> cnt + int (count_list J (CHR ''/'')) + 1 = lvl \<and>
     extract_dir lvl cnt s = (J, lvl)"
proof (induction s arbitrary: cnt)
  case Nil
  then show ?case by simp
next
  case (Cons c s)
  show ?case
  proof (cases "c = CHR ''/''")
    case True
    show ?thesis
    proof (cases "cnt + 1 = lvl")
      case True
      with \<open>c = CHR ''/''\<close> show ?thesis by (auto simp: Let_def)
    next
      case False
      with Cons.prems True
      have "cnt + 1 < lvl" "lvl \<le> (cnt + 1) + int (count_list s (CHR ''/''))"
        by auto
      from Cons.IH [OF this] obtain J rest where
        "s = J @ CHR ''/'' # rest" "cnt + 1 + int (count_list J (CHR ''/'')) + 1 = lvl"
        "extract_dir lvl (cnt + 1) s = (J, lvl)" by blast
      with True False show ?thesis
        by (intro exI [of _ "c # J"] exI [of _ rest]) (simp add: Let_def)
    qed
  next
    case False
    with Cons.prems have "cnt < lvl" "lvl \<le> cnt + int (count_list s (CHR ''/''))"
      by auto
    from Cons.IH [OF this] obtain J rest where
      "s = J @ CHR ''/'' # rest" "cnt + int (count_list J (CHR ''/'')) + 1 = lvl"
      "extract_dir lvl cnt s = (J, lvl)" by blast
    with False Cons.prems show ?thesis
      by (intro exI [of _ "c # J"] exI [of _ rest]) (simp add: Let_def)
  qed
qed

lemma separators_cut:
  assumes "lvl < int (count_list s (CHR ''/''))" and "0 \<le> lvl"
  shows "\<exists>J rest. s = J @ CHR ''/'' # rest \<and> int (count_list J (CHR ''/'')) = lvl"
proof -
  from assms have "(- 1 :: int) < lvl" "lvl \<le> - 1 + int (count_list s (CHR ''/''))"
    by simp_all
  from extract_dir_cut [OF this] show ?thesis
    by auto
qed

text \<open>
  When the loop is left by \<^verbatim>\<open>break\<close>, what remains in \<^verbatim>\<open>chroot_dir\<close> is shorter than
  what it held, so it fits the \<^verbatim>\<open>strncpy\<close> of line 135 with its terminator.
\<close>

lemma extract_dir_length:
  "extract_dir lvl cnt s = (d, k) \<Longrightarrow> lvl \<le> k \<Longrightarrow> cnt < lvl \<Longrightarrow> length d < length s"
  by (induction s arbitrary: cnt d k) (auto simp: Let_def split: if_splits prod.splits)

text \<open>
  When the program reaches line 135, the string in \<^verbatim>\<open>chroot_dir\<close> has fewer than
  MAX_STRING characters, for a level that is not negative: the \<^verbatim>\<open>strncpy\<close> into
  \<^verbatim>\<open>shell\<close> copies all of it with its terminator, whatever lies behind the buffer.
\<close>

lemma chroot_dir_fits:
  assumes "extract_dir lvl (- 1) (copy_home g dir) = (d, k)" and "\<not> k < lvl" and "0 \<le> lvl"
  shows "length d < MAX_STRING" and "strncpy d MAX_STRING beyond = d"
proof -
  from assms have "length d < length (copy_home g dir)"
    by (intro extract_dir_length [of lvl "- 1" _ d k]) simp_all
  with copy_home_length [of g dir] show "length d < MAX_STRING"
    by simp
  then show "strncpy d MAX_STRING beyond = d"
    by (simp add: strncpy_def)
qed

subsection \<open>The shape of a run\<close>

lemma main_level_home:
  assumes "geteuid w = 0" "getuid w \<noteq> 0" "getpwuid w (getuid w) = Some pw_ent"
  shows "main_level lvl w =
           emit [Getuid, Geteuid, Getpwuid (getuid w)]
             (check_home lvl w (sint (getuid w)) pw_ent)"
  using assms by (simp add: main_level_def emit_def sint_uid_0 Let_def)

lemma check_home_too_short:
  assumes "c = copy_home (chroot_dir_1023 w) (pw_dir pw_ent)"
    and "int (count_list c (CHR ''/'')) \<le> lvl"
  shows "check_home lvl w r pw_ent =
           ((if take 1 c \<noteq> ''/'' then [Fprintf (argv_0 w) (Home_no_slash c)] else []) @
            [Stat c] @
            (if stat w c = None then [Fprintf (argv_0 w) (Home_not_exist c)] else []) @
            [Fprintf (argv_0 w) (Home_too_short c lvl)],
            Exited (- 1))"
proof -
  from assms(2) have "extract_dir lvl (- 1) c = (c, - 1 + int (count_list c (CHR ''/'')))"
    by (intro extract_dir_short) simp
  with assms show ?thesis
    by (simp add: check_home_def emit_def fatal_def Let_def)
qed

lemma check_home_cut:
  assumes "c = copy_home (chroot_dir_1023 w) (pw_dir pw_ent)"
    and "c = J @ CHR ''/'' # rest" and "int (count_list J (CHR ''/'')) = lvl"
  shows "check_home lvl w r pw_ent =
           emit ((if take 1 c \<noteq> ''/'' then [Fprintf (argv_0 w) (Home_no_slash c)] else []) @
                 [Stat c] @
                 (if stat w c = None then [Fprintf (argv_0 w) (Home_not_exist c)] else []))
             (check_shell w r J)"
proof -
  from assms(3) have "extract_dir lvl (- 1) (J @ CHR ''/'' # rest) = (J, lvl)"
    by (intro extract_dir_at) simp
  with assms(1,2) show ?thesis
    by (simp add: check_home_def emit_def Let_def)
qed

lemma jail_suffix:
  assumes "main w = (cs, Replaced path args env)"
  shows "\<exists>pw_ent. jail_getpwuid w (getuid w) = Some pw_ent \<and> path = SHELL \<and>
     args = pw_shell pw_ent # argv_rest w \<and>
     env = putenv (''HOME='' @ take (MAX_STRING - 5) (pw_dir pw_ent)) (envp w) \<and>
     dropWhile host_call cs =
       [Chdir (jail_root w), Chroot (jail_root w), Setuid (getuid w), Getpwuid (getuid w),
        Chdir (pw_dir pw_ent), Putenv (''HOME='' @ take (MAX_STRING - 5) (pw_dir pw_ent)),
        Execve SHELL args env]"
  using assms
  by (auto simp: main_def main_level_def emit_def fatal_def check_home_def check_shell_def
      enter_chroot_def exec_shell_def jail_root_def Let_def strncat_def MAX_STRING_def
      split: if_splits option.splits prod.splits)

lemma last_call:
  assumes "main w = (cs, Replaced path args env)"
  shows "last cs = Execve SHELL args env"
proof -
  from jail_suffix [OF assms] obtain xs where "dropWhile host_call cs = xs @ [Execve SHELL args env]"
    by fastforce
  then have "cs = (takeWhile host_call cs @ xs) @ [Execve SHELL args env]"
    by (metis append_assoc takeWhile_dropWhile_id)
  then show ?thesis
    by (metis last_snoc)
qed

subsection \<open>The runs of the example worlds\<close>

lemma joe_run:
  "main joe =
     (joe_host_calls @ joe_jail_calls,
      Replaced ''/bin/bash'' [''/bin/sh'', ''-l'']
        [''PATH=/bin:/usr/bin'', ''HOME=/home/joe'', ''TERM=vt100''])"
  by (simp add: joe_def joe_host_calls_def joe_jail_calls_def program_defs)




lemma relative_joe_run:
  "main relative_joe =
     ([Getuid, Geteuid, Getpwuid 1000,
       Fprintf ''-chrlogin'' (Home_no_slash ''jails/joe/root/home''),
       Stat ''jails/joe/root/home'',
       Fprintf ''-chrlogin'' (Home_not_exist ''jails/joe/root/home''),
       Stat ''jails/joe/root/bin/bash''] @ 
      [Chdir ''jails/joe/root'', Chroot ''jails/joe/root'', Setuid 1000, Getpwuid 1000,
       Chdir ''/home/joe'', Putenv ''HOME=/home/joe'',
       Execve ''/bin/bash'' [''/bin/sh'', ''-l'']
         [''PATH=/bin:/usr/bin'', ''HOME=/home/joe'', ''TERM=vt100'']],
      Replaced ''/bin/bash'' [''/bin/sh'', ''-l'']
        [''PATH=/bin:/usr/bin'', ''HOME=/home/joe'', ''TERM=vt100''])"
  by (simp add: relative_joe_def joe_def program_defs)

lemma long_home_copy:
  "copy_home NUL long_home = ''/a/'' @ replicate 1020 (CHR ''b'')"
  by (simp add: copy_home_def strncpy_def MAX_STRING_def long_home_def)




lemma take_long_inner_home:
  "take 1019 long_inner_home = CHR ''/'' # replicate 1018 (CHR ''h'')"
  by (simp add: long_inner_home_def)

lemma long_inner_home_cut: "CHR ''/'' # replicate 1018 (CHR ''h'') \<noteq> long_inner_home"
proof
  assume "CHR ''/'' # replicate 1018 (CHR ''h'') = long_inner_home"
  then have "length (CHR ''/'' # replicate 1018 (CHR ''h'')) = length long_inner_home"
    by simp
  then show False
    by (simp add: long_inner_home_def)
qed

lemma long_relative_copy:
  "copy_home NUL long_relative = replicate 1023 (CHR ''r'')"
  by (simp add: copy_home_def strncpy_def MAX_STRING_def long_relative_def)

lemma long_relative_cut: "replicate 1023 (CHR ''r'') \<noteq> long_relative"
proof
  assume "replicate 1023 (CHR ''r'') = long_relative"
  then have "length (replicate 1023 (CHR ''r'')) = length long_relative"
    by simp
  then show False
    by (simp add: long_relative_def)
qed

section \<open>The order of the calls\<close>

text \<open>
  C1. In every successful run (one that ends with the image replaced), the calls
  are, after a prefix of calls on the host (getuid, geteuid, the first getpwuid, stat
  and diagnostics only), exactly: chdir to the jail root, chroot to the jail root,
  setuid to the real uid, the second getpwuid, chdir to the home directory of the
  record it returns, putenv of HOME= followed by (the first 1019 characters of) that
  home directory, and execve of SHELL. Nothing is called between chroot and setuid,
  and the prefix holds no chdir, chroot, setuid, putenv or execve, so each of them
  occurs as often as the list shows.
\<close>

theorem call_order:
  assumes "main w = (cs, Replaced path args env)"
  shows "\<exists>pre pw_ent.
           jail_getpwuid w (getuid w) = Some pw_ent \<and>
           (\<forall>c\<in>set pre. host_call c) \<and>
           cs = pre @
             [Chdir (jail_root w), Chroot (jail_root w), Setuid (getuid w),
              Getpwuid (getuid w), Chdir (pw_dir pw_ent),
              Putenv (''HOME='' @ take (MAX_STRING - 5) (pw_dir pw_ent)),
              Execve SHELL args env] \<and>
           path = SHELL"
proof -
  from jail_suffix [OF assms] obtain pw_ent where
    pw: "jail_getpwuid w (getuid w) = Some pw_ent" and path: "path = SHELL" and
    suffix: "dropWhile host_call cs =
       [Chdir (jail_root w), Chroot (jail_root w), Setuid (getuid w), Getpwuid (getuid w),
        Chdir (pw_dir pw_ent), Putenv (''HOME='' @ take (MAX_STRING - 5) (pw_dir pw_ent)),
        Execve SHELL args env]"
    by blast
  have "cs = takeWhile host_call cs @ dropWhile host_call cs"
    by simp
  moreover have "\<forall>c\<in>set (takeWhile host_call cs). host_call c"
    by (auto dest: set_takeWhileD)
  ultimately show ?thesis
    using pw path suffix by metis
qed

theorem call_order_witness:
  "main joe =
     (joe_host_calls @ joe_jail_calls,
      Replaced ''/bin/bash'' [''/bin/sh'', ''-l'']
        [''PATH=/bin:/usr/bin'', ''HOME=/home/joe'', ''TERM=vt100'']) \<and>
   (\<exists>pre pw_ent.
      jail_getpwuid joe (getuid joe) = Some pw_ent \<and>
      (\<forall>c\<in>set pre. host_call c) \<and>
      joe_host_calls @ joe_jail_calls = pre @
        [Chdir (jail_root joe), Chroot (jail_root joe), Setuid (getuid joe),
         Getpwuid (getuid joe), Chdir (pw_dir pw_ent),
         Putenv (''HOME='' @ take (MAX_STRING - 5) (pw_dir pw_ent)),
         Execve SHELL [''/bin/sh'', ''-l'']
           [''PATH=/bin:/usr/bin'', ''HOME=/home/joe'', ''TERM=vt100'']] \<and>
      ''/bin/bash'' = SHELL)"
  using call_order [OF joe_run] joe_run by simp

section \<open>The derivation of the jail root\<close>

text \<open>
  C2, as amended. For every home directory P of fewer than MAX_STRING - 1 = 1023
  characters and every level L that is not negative: when P holds at most L
  separators (for an absolute P: fewer than L after the leading one), the program
  prints the diagnostic for a home directory that is too short and exits with -1
  before any other check; otherwise the jail root is the prefix J of P that ends just
  before the separator number L after the first one, that is the longest prefix of P
  that holds exactly L separators, the leading one counted, and the program goes on to
  the check of the shell with J as its chroot directory.
\<close>

theorem jail_root_derivation:
  assumes "geteuid w = 0" and "getuid w \<noteq> 0" and "getpwuid w (getuid w) = Some pw_ent"
    and "length (pw_dir pw_ent) < MAX_STRING - 1" and "0 \<le> lvl"
  shows "if int (count_list (pw_dir pw_ent) (CHR ''/'')) \<le> lvl
         then main_level lvl w =
                (home_calls w (pw_dir pw_ent) @
                 [Fprintf (argv_0 w) (Home_too_short (pw_dir pw_ent) lvl)], Exited (- 1))
         else \<exists>J rest. pw_dir pw_ent = J @ CHR ''/'' # rest \<and>
                int (count_list J (CHR ''/'')) = lvl \<and>
                main_level lvl w =
                  emit (home_calls w (pw_dir pw_ent)) (check_shell w (sint (getuid w)) J)"
proof -
  let ?P = "pw_dir pw_ent"
  have copy: "?P = copy_home (chroot_dir_1023 w) ?P"
    using assms(4) by (simp add: copy_home_short)
  show ?thesis
  proof (cases "int (count_list ?P (CHR ''/'')) \<le> lvl")
    case True
    from check_home_too_short [OF copy True]
    show ?thesis
      using True by (simp add: main_level_home [OF assms(1-3)] emit_def home_calls_def)
  next
    case False
    with assms(5) obtain J rest where
      cut: "?P = J @ CHR ''/'' # rest" "int (count_list J (CHR ''/'')) = lvl"
      using separators_cut [of lvl ?P] by auto
    from check_home_cut [OF copy cut]
    have "main_level lvl w = emit (home_calls w ?P) (check_shell w (sint (getuid w)) J)"
      by (simp add: main_level_home [OF assms(1-3)] emit_def home_calls_def)
    with cut False show ?thesis
      by auto
  qed
qed

theorem jail_root_derivation_witness:
  "geteuid joe = 0 \<and> getuid joe = 1000 \<and>
   getpwuid joe (getuid joe) =
     Some \<lparr>pw_dir = ''/home/chroot/home/joe'', pw_shell = ''/usr/local/sbin/chrlogin''\<rparr> \<and>
   length ''/home/chroot/home/joe'' < MAX_STRING - 1 \<and>
   (\<exists>J rest. ''/home/chroot/home/joe'' = J @ CHR ''/'' # rest \<and>
       int (count_list J (CHR ''/'')) = 2 \<and>
       main_level 2 joe =
         emit (home_calls joe ''/home/chroot/home/joe'') (check_shell joe (sint (getuid joe)) J)) \<and>
   getpwuid short_home_world (getuid short_home_world) =
     Some \<lparr>pw_dir = ''/a'', pw_shell = ''/usr/local/sbin/chrlogin''\<rparr> \<and>
   main_level 2 short_home_world =
     (home_calls short_home_world ''/a'' @ [Fprintf ''-chrlogin'' (Home_too_short ''/a'' 2)],
      Exited (- 1))"
  using jail_root_derivation [of joe
      "\<lparr>pw_dir = ''/home/chroot/home/joe'', pw_shell = ''/usr/local/sbin/chrlogin''\<rparr>" 2]
    jail_root_derivation [of short_home_world
      "\<lparr>pw_dir = ''/a'', pw_shell = ''/usr/local/sbin/chrlogin''\<rparr>" 2]
  by (simp add: joe_def short_home_world_def MAX_STRING_def)

text \<open>The examples of the claim, for any content of the cell that is not written.\<close>

lemma derivation_examples:
  "extract_dir 2 (- 1) (copy_home g ''/home/chroot/home/joe'') = (''/home/chroot'', 2)"
  "extract_dir 2 (- 1) (copy_home g ''/a/b/c/d'') = (''/a/b'', 2)"
  "extract_dir 2 (- 1) (copy_home g ''/a'') = (''/a'', 0)"
  by (simp_all add: copy_home_def strncpy_def MAX_STRING_def)

text \<open>
  The claim as stated fails for a long home directory: \<open>long_home\<close> holds two
  separators after the leading one, and its longest prefix with exactly two
  separators before the next one is \<^verbatim>\<open>/a/bbb...b\<close> with all its 1030 letters b; the
  program sees only the first 1023 characters, finds one separator after the leading
  one, and exits with the diagnostic for a home directory that is too short.
\<close>

theorem long_home_too_short:
  "long_home = (''/a/'' @ replicate 1030 (CHR ''b'')) @ CHR ''/'' # ''c'' \<and>
   count_list (''/a/'' @ replicate 1030 (CHR ''b'')) (CHR ''/'') = 2 \<and>
   count_list long_home (CHR ''/'') = 3 \<and>
   main long_home_world =
     ([Getuid, Geteuid, Getpwuid 1000,
       Stat (''/a/'' @ replicate 1020 (CHR ''b'')),
       Fprintf ''-chrlogin'' (Home_not_exist (''/a/'' @ replicate 1020 (CHR ''b''))),
       Fprintf ''-chrlogin'' (Home_too_short (''/a/'' @ replicate 1020 (CHR ''b'')) 2)],
      Exited (- 1))"
proof -
  have w: "geteuid long_home_world = 0" "getuid long_home_world \<noteq> 0"
    "getpwuid long_home_world (getuid long_home_world) =
       Some \<lparr>pw_dir = long_home, pw_shell = ''/usr/local/sbin/chrlogin''\<rparr>"
    by (simp_all add: long_home_world_def joe_def)
  have c: "''/a/'' @ replicate 1020 (CHR ''b'') =
      copy_home (chroot_dir_1023 long_home_world)
        (pw_dir \<lparr>pw_dir = long_home, pw_shell = ''/usr/local/sbin/chrlogin''\<rparr>)"
    by (simp add: long_home_world_def long_home_copy [simplified])
  have n: "int (count_list (''/a/'' @ replicate 1020 (CHR ''b'')) (CHR ''/'')) \<le> CHROOT_LEVEL"
    by (simp add: count_list_replicate CHROOT_LEVEL_def)
  have "main long_home_world =
     ([Getuid, Geteuid, Getpwuid 1000,
       Stat (''/a/'' @ replicate 1020 (CHR ''b'')),
       Fprintf ''-chrlogin'' (Home_not_exist (''/a/'' @ replicate 1020 (CHR ''b''))),
       Fprintf ''-chrlogin'' (Home_too_short (''/a/'' @ replicate 1020 (CHR ''b'')) 2)],
      Exited (- 1))"
    unfolding main_def main_level_home [OF w] check_home_too_short [OF c n]
    by (simp add: emit_def long_home_world_def joe_def CHROOT_LEVEL_def)
  then show ?thesis
    by (simp add: long_home_def count_list_replicate)
qed

section \<open>Pre-flight checks\<close>

text \<open>
  C3. For any invocation where the effective uid is not 0, and for any invocation
  where the real uid is 0, the program exits with a non-zero status after one
  diagnostic, and calls neither chroot nor setuid nor execve: the only calls made are
  getuid, geteuid and the fprintf of the diagnostic.
\<close>

theorem preflight_refuses:
  assumes "geteuid w \<noteq> 0 \<or> getuid w = 0"
  shows "main w =
           ([Getuid, Geteuid,
             Fprintf (argv_0 w)
               (if geteuid w \<noteq> 0 then Needs_setuid_root else Target_must_not_be_root)],
            Exited (- 1))"
  using assms by (auto simp: main_def main_level_def emit_def fatal_def)

theorem preflight_refuses_witness:
  "geteuid not_setuid = 1000 \<and>
   main not_setuid =
     ([Getuid, Geteuid, Fprintf ''-chrlogin'' Needs_setuid_root], Exited (- 1)) \<and>
   getuid root_caller = 0 \<and>
   main root_caller =
     ([Getuid, Geteuid, Fprintf ''-chrlogin'' Target_must_not_be_root], Exited (- 1))"
  using preflight_refuses [of not_setuid] preflight_refuses [of root_caller]
  by (simp add: not_setuid_def root_caller_def joe_def)

section \<open>A failure of setuid\<close>

text \<open>
  C4. The claim is that a failing setuid is fatal. The program does not look
  at the result of setuid: in joe's world with a setuid that fails, the run goes on
  to the second lookup and replaces the image by the shell, as in joe's own world.
\<close>

theorem setuid_failure_ignored:
  "main setuid_fails =
     (joe_host_calls @ joe_jail_calls,
      Replaced ''/bin/bash'' [''/bin/sh'', ''-l'']
        [''PATH=/bin:/usr/bin'', ''HOME=/home/joe'', ''TERM=vt100''])"
  by (simp add: setuid_fails_def joe_def joe_host_calls_def joe_jail_calls_def program_defs)

section \<open>A failure of execve\<close>

text \<open>
  C5. The claim is that the process exits with a non-zero status when execve
  returns. The program returns 0 from main: in joe's world with an execve that fails,
  the run makes the same calls and ends with status 0, without a diagnostic.
\<close>

theorem exec_failure_exits_zero:
  "main exec_fails = (joe_host_calls @ joe_jail_calls, Exited 0)"
  by (simp add: exec_fails_def joe_def joe_host_calls_def joe_jail_calls_def program_defs)

section \<open>The check of the shell\<close>




section \<open>The environment of the shell\<close>

text \<open>
  C7, as amended. In a run that ends with the image replaced, when the inherited
  environment has an entry that defines HOME and the home directory of the record of
  the second lookup has at most MAX_STRING - 5 = 1019 characters, the environment
  given to execve, and to the new image, is the inherited one with its first entry
  that defines HOME replaced by HOME= followed by that home directory, every other
  entry unchanged and in its place.
\<close>

theorem home_replaced_in_environment:
  assumes "main w = (cs, Replaced path args env)"
    and "jail_getpwuid w (getuid w) = Some pw_ent"
    and "length (pw_dir pw_ent) \<le> MAX_STRING - length ''HOME=''"
    and "envp w = pre @ old # post"
    and "defines_HOME old" and "\<forall>e\<in>set pre. \<not> defines_HOME e"
  shows "env = pre @ (''HOME='' @ pw_dir pw_ent) # post \<and> last cs = Execve SHELL args env"
proof -
  from jail_suffix [OF assms(1)] assms(2)
  have "env = putenv (''HOME='' @ take (MAX_STRING - 5) (pw_dir pw_ent)) (envp w)"
    by auto
  moreover from assms(3) have "take (MAX_STRING - 5) (pw_dir pw_ent) = pw_dir pw_ent"
    by simp
  ultimately have "env = pre @ (''HOME='' @ pw_dir pw_ent) # post"
    using putenv_HOME [OF assms(5,6)] assms(4) by simp
  with last_call [OF assms(1)] show ?thesis
    by simp
qed

theorem home_replaced_in_environment_witness:
  "main joe =
     (joe_host_calls @ joe_jail_calls,
      Replaced ''/bin/bash'' [''/bin/sh'', ''-l'']
        [''PATH=/bin:/usr/bin'', ''HOME=/home/joe'', ''TERM=vt100'']) \<and>
   jail_getpwuid joe (getuid joe) = Some \<lparr>pw_dir = ''/home/joe'', pw_shell = ''/bin/sh''\<rparr> \<and>
   length ''/home/joe'' \<le> MAX_STRING - length ''HOME='' \<and>
   envp joe = [''PATH=/bin:/usr/bin''] @ ''HOME=/home/chroot/home/joe'' # [''TERM=vt100''] \<and>
   defines_HOME ''HOME=/home/chroot/home/joe'' \<and>
   \<not> defines_HOME ''PATH=/bin:/usr/bin'' \<and>
   [''PATH=/bin:/usr/bin'', ''HOME=/home/joe'', ''TERM=vt100''] =
     [''PATH=/bin:/usr/bin''] @ (''HOME='' @ ''/home/joe'') # [''TERM=vt100''] \<and>
   last (joe_host_calls @ joe_jail_calls) =
     Execve SHELL [''/bin/sh'', ''-l'']
       [''PATH=/bin:/usr/bin'', ''HOME=/home/joe'', ''TERM=vt100'']"
proof -
  have h: "jail_getpwuid joe (getuid joe) = Some \<lparr>pw_dir = ''/home/joe'', pw_shell = ''/bin/sh''\<rparr>"
    "length (pw_dir \<lparr>pw_dir = ''/home/joe'', pw_shell = ''/bin/sh''\<rparr>)
       \<le> MAX_STRING - length ''HOME=''"
    "envp joe = [''PATH=/bin:/usr/bin''] @ ''HOME=/home/chroot/home/joe'' # [''TERM=vt100'']"
    "defines_HOME ''HOME=/home/chroot/home/joe''"
    "\<forall>e\<in>set [''PATH=/bin:/usr/bin'']. \<not> defines_HOME e"
    by (simp_all add: joe_def MAX_STRING_def defines_HOME_def)
  from home_replaced_in_environment [OF joe_run h] joe_run h show ?thesis
    by simp
qed

text \<open>
  The claim as stated fails for a long home directory: \<^verbatim>\<open>home_dir\<close> is built by a
  bounded \<^verbatim>\<open>strncat\<close>, and the shell is given a HOME that holds only the first 1019
  characters of the home directory of 1031 characters.
\<close>

theorem long_home_truncated_in_environment:
  "jail_getpwuid long_inner_world (getuid long_inner_world) =
     Some \<lparr>pw_dir = long_inner_home, pw_shell = ''/bin/sh''\<rparr> \<and>
   ending long_inner_world =
     Replaced ''/bin/bash'' [''/bin/sh'', ''-l'']
       [''PATH=/bin:/usr/bin'', ''HOME='' @ CHR ''/'' # replicate 1018 (CHR ''h''),
        ''TERM=vt100''] \<and>
   ''HOME='' @ CHR ''/'' # replicate 1018 (CHR ''h'') \<noteq> ''HOME='' @ long_inner_home"
  using long_inner_home_cut
  by (simp add: ending_def long_inner_world_def joe_def program_defs take_long_inner_home)

text \<open>
  When the inherited environment does not define HOME, the array that \<^verbatim>\<open>envp\<close>
  points to is not changed by \<^verbatim>\<open>putenv\<close>, and the shell is given no HOME at all.
\<close>

lemma no_HOME_inherited:
  "ending no_HOME_world =
     Replaced ''/bin/bash'' [''/bin/sh'', ''-l''] [''PATH=/bin:/usr/bin'', ''TERM=vt100'']"
  by (simp add: ending_def no_HOME_world_def joe_def program_defs)

section \<open>The arguments of the shell\<close>

text \<open>
  C8. Whenever execve is called, the path executed is the constant SHELL, the
  zeroth argument is the shell recorded in the record returned by the second lookup
  (the one made in the jail), and the remaining arguments are those the program was
  called with. The same holds of the image that replaces the process.
\<close>

theorem exec_arguments:
  "(Execve path args env \<in> set (calls w) \<or> ending w = Replaced path args env) \<longrightarrow>
   (\<exists>pw_ent. jail_getpwuid w (getuid w) = Some pw_ent \<and>
      path = SHELL \<and> args = pw_shell pw_ent # argv_rest w)"
  by (auto simp: calls_def ending_def main_def main_level_def emit_def fatal_def
      check_home_def check_shell_def enter_chroot_def exec_shell_def Let_def
      split: if_splits option.splits prod.splits)

theorem exec_arguments_witness:
  "(Execve ''/bin/bash'' [''/bin/sh'', ''-l'']
      [''PATH=/bin:/usr/bin'', ''HOME=/home/joe'', ''TERM=vt100''] \<in> set (calls joe) \<or>
    ending joe = Replaced ''/bin/bash'' [''/bin/sh'', ''-l'']
      [''PATH=/bin:/usr/bin'', ''HOME=/home/joe'', ''TERM=vt100'']) \<and>
   jail_getpwuid joe (getuid joe) =
     Some \<lparr>pw_dir = ''/home/joe'', pw_shell = ''/bin/sh''\<rparr> \<and>
   getpwuid joe (getuid joe) =
     Some \<lparr>pw_dir = ''/home/chroot/home/joe'', pw_shell = ''/usr/local/sbin/chrlogin''\<rparr> \<and>
   ''/bin/bash'' = SHELL \<and> [''/bin/sh'', ''-l''] = ''/bin/sh'' # argv_rest joe"
  using exec_arguments [of "''/bin/bash''" "[''/bin/sh'', ''-l'']"
      "[''PATH=/bin:/usr/bin'', ''HOME=/home/joe'', ''TERM=vt100'']" joe]
  by (simp add: ending_def joe_run) (simp add: joe_def SHELL_def)

section \<open>A home directory that is not absolute\<close>

text \<open>
  C9, as amended. For every home directory of the host record that does not begin
  with the separator, the program prints the diagnostic for it, naming the path as
  \<^verbatim>\<open>chroot_dir\<close> holds it (the path itself when it has fewer than MAX_STRING - 1 = 1023
  characters, and in every case a string with the same first 1023 characters), and
  does not exit: the next call is the stat of that path, and the loop over the
  separators, the check for a path that is too short and the check of the shell
  follow as for an absolute path.
\<close>

theorem relative_home_not_fatal:
  assumes "geteuid w = 0" and "getuid w \<noteq> 0" and "getpwuid w (getuid w) = Some pw_ent"
    and "take 1 (pw_dir pw_ent) \<noteq> ''/''"
  shows "\<exists>c. c = copy_home (chroot_dir_1023 w) (pw_dir pw_ent) \<and>
           (length (pw_dir pw_ent) < MAX_STRING - 1 \<longrightarrow> c = pw_dir pw_ent) \<and>
           take (MAX_STRING - 1) c = take (MAX_STRING - 1) (pw_dir pw_ent) \<and>
           main_level lvl w =
             emit ([Getuid, Geteuid, Getpwuid (getuid w),
                    Fprintf (argv_0 w) (Home_no_slash c), Stat c] @
                   (if stat w c = None then [Fprintf (argv_0 w) (Home_not_exist c)] else []))
               (case extract_dir lvl (- 1) c of
                  (d, cnt) \<Rightarrow>
                    if cnt < lvl then fatal w (Home_too_short d lvl)
                    else check_shell w (sint (getuid w)) d)"
  using assms(4) take_1_copy_home [of "chroot_dir_1023 w" "pw_dir pw_ent"]
  by (simp add: main_level_home [OF assms(1-3)] check_home_def emit_def Let_def
      copy_home_short take_copy_home [simplified])

theorem relative_home_not_fatal_witness:
  "geteuid relative_joe = 0 \<and> getuid relative_joe = 1000 \<and>
   getpwuid relative_joe (getuid relative_joe) =
     Some \<lparr>pw_dir = ''jails/joe/root/home'', pw_shell = ''/usr/local/sbin/chrlogin''\<rparr> \<and>
   take 1 ''jails/joe/root/home'' = ''j'' \<and>
   (\<exists>c. c = copy_home (chroot_dir_1023 relative_joe) ''jails/joe/root/home'' \<and>
        c = ''jails/joe/root/home'' \<and>
        main_level 2 relative_joe =
          emit ([Getuid, Geteuid, Getpwuid (getuid relative_joe),
                 Fprintf (argv_0 relative_joe) (Home_no_slash c), Stat c] @
                (if stat relative_joe c = None
                 then [Fprintf (argv_0 relative_joe) (Home_not_exist c)] else []))
            (case extract_dir 2 (- 1) c of
               (d, cnt) \<Rightarrow>
                 if cnt < 2 then fatal relative_joe (Home_too_short d 2)
                 else check_shell relative_joe (sint (getuid relative_joe)) d)) \<and>
   ending relative_joe =
     Replaced ''/bin/bash'' [''/bin/sh'', ''-l'']
       [''PATH=/bin:/usr/bin'', ''HOME=/home/joe'', ''TERM=vt100'']"
proof -
  have h: "geteuid relative_joe = 0" "getuid relative_joe \<noteq> 0"
    "getpwuid relative_joe (getuid relative_joe) =
       Some \<lparr>pw_dir = ''jails/joe/root/home'', pw_shell = ''/usr/local/sbin/chrlogin''\<rparr>"
    "take 1 (pw_dir \<lparr>pw_dir = ''jails/joe/root/home'',
       pw_shell = ''/usr/local/sbin/chrlogin''\<rparr>) \<noteq> ''/''"
    by (simp_all add: relative_joe_def joe_def)
  have "getuid relative_joe = 1000"
    by (simp add: relative_joe_def joe_def)
  with relative_home_not_fatal [OF h, of 2] h show ?thesis
    by (simp add: ending_def relative_joe_run MAX_STRING_def)
qed

text \<open>
  The claim as stated fails for a long relative home directory: the diagnostic names
  what \<^verbatim>\<open>chroot_dir\<close> holds, the first 1023 of the 1030 characters, not the path.
\<close>

theorem long_relative_home_not_named:
  "getpwuid long_relative_world (getuid long_relative_world) =
     Some \<lparr>pw_dir = long_relative, pw_shell = ''/usr/local/sbin/chrlogin''\<rparr> \<and>
   take 1 long_relative = ''r'' \<and>
   calls long_relative_world =
     [Getuid, Geteuid, Getpwuid 1000,
      Fprintf ''-chrlogin'' (Home_no_slash (replicate 1023 (CHR ''r''))),
      Stat (replicate 1023 (CHR ''r'')),
      Fprintf ''-chrlogin'' (Home_not_exist (replicate 1023 (CHR ''r''))),
      Fprintf ''-chrlogin'' (Home_too_short (replicate 1023 (CHR ''r'')) 2)] \<and>
   Fprintf ''-chrlogin'' (Home_no_slash long_relative) \<notin> set (calls long_relative_world)"
proof -
  let ?c = "replicate 1023 (CHR ''r'')"
  let ?pw = "\<lparr>pw_dir = long_relative, pw_shell = ''/usr/local/sbin/chrlogin''\<rparr>"
  have w: "geteuid long_relative_world = 0" "getuid long_relative_world \<noteq> 0"
    "getpwuid long_relative_world (getuid long_relative_world) = Some ?pw"
    by (simp_all add: long_relative_world_def joe_def)
  have c: "?c = copy_home (chroot_dir_1023 long_relative_world) (pw_dir ?pw)"
    by (simp add: long_relative_world_def joe_def long_relative_copy)
  have n: "int (count_list ?c (CHR ''/'')) \<le> CHROOT_LEVEL"
    by (simp add: count_list_replicate CHROOT_LEVEL_def)
  have first: "take 1 ?c = ''r''" "take 1 long_relative = ''r''"
    by (simp_all add: long_relative_def)
  have run: "calls long_relative_world =
     [Getuid, Geteuid, Getpwuid 1000,
      Fprintf ''-chrlogin'' (Home_no_slash ?c), Stat ?c,
      Fprintf ''-chrlogin'' (Home_not_exist ?c),
      Fprintf ''-chrlogin'' (Home_too_short ?c 2)]"
    unfolding calls_def main_def main_level_home [OF w] check_home_too_short [OF c n]
    using first(1)
    by (simp add: emit_def long_relative_world_def joe_def CHROOT_LEVEL_def)
  show ?thesis
    using w(3) first(2) long_relative_cut by (simp add: run)
qed

section \<open>The bounded copy of the home directory\<close>

text \<open>
  C10. The home directory is copied into \<^verbatim>\<open>chroot_dir\<close> by a copy bounded by
  MAX_STRING - 1 = 1023 characters before the walk over the separators: the buffer
  agrees with the home directory on its first 1023 characters and holds no other
  character of it, and the whole run, with the jail root derived and the check for a
  home directory that is too short, is the run for the home directory cut to its first
  1023 characters.
\<close>

theorem home_copy_bounded:
  "take (MAX_STRING - 1) (copy_home g dir) = take (MAX_STRING - 1) dir \<and>
   copy_home g dir = copy_home g (take (MAX_STRING - 1) dir) \<and>
   MAX_STRING - 1 = 1023 \<and>
   main_level lvl w =
     main_level lvl
       (w\<lparr>getpwuid := \<lambda>u. map_option (pw_dir_update (take (MAX_STRING - 1))) (getpwuid w u)\<rparr>)"
proof -
  have fatal: "fatal (w\<lparr>getpwuid := f\<rparr>) = fatal w" for f
    by (intro ext) (simp add: fatal_def)
  have exec: "exec_shell (w\<lparr>getpwuid := f\<rparr>) = exec_shell w" for f
    by (intro ext) (simp add: exec_shell_def)
  have enter: "enter_chroot (w\<lparr>getpwuid := f\<rparr>) = enter_chroot w" for f
    by (intro ext) (simp add: enter_chroot_def fatal exec split: option.splits)
  have shell: "check_shell (w\<lparr>getpwuid := f\<rparr>) = check_shell w" for f
    by (intro ext) (simp add: check_shell_def fatal enter Let_def split: option.splits)
  have home: "check_home lvl (w\<lparr>getpwuid := f\<rparr>) r
                (pw_dir_update (take (MAX_STRING - 1)) pw_ent) =
              check_home lvl w r pw_ent" for r pw_ent f
    by (simp add: check_home_def shell fatal copy_home_take [simplified] Let_def split: prod.splits)
  have "main_level lvl w =
        main_level lvl
          (w\<lparr>getpwuid := \<lambda>u. map_option (pw_dir_update (take (MAX_STRING - 1))) (getpwuid w u)\<rparr>)"
    by (simp add: main_level_def home [simplified] fatal Let_def split: option.splits)
  then show ?thesis
    using copy_home_take [of g dir] take_copy_home [of g dir] by (simp add: MAX_STRING_def)
qed

end
